theory Spec2Isabelle
  imports Complex_Main
begin

section \<open>JavaScript numbers\<close>

text \<open>
  A JavaScript number is an IEEE 754 double. The chart code divides by values that can be
  zero, so the special values are modelled explicitly: a number is finite, one of the two
  infinities, or NaN, and every operation below follows the IEEE rules for them
  (0/0 = NaN, x/0 = an infinity for x \<noteq> 0, 0 * Infinity = NaN, Infinity - Infinity = NaN,
  NaN is absorbing). Finite values are carried as reals and finite results are exact:
  rounding and overflow of finite arithmetic are not modelled. There is a single zero; a
  division of a nonzero number by zero takes its sign from the dividend, as a division
  by +0 does.
\<close>

datatype jsnum = Num real | PosInf | NegInf | NaN


fun js_add :: "jsnum \<Rightarrow> jsnum \<Rightarrow> jsnum" where
  "js_add NaN b = NaN"
| "js_add a NaN = NaN"
| "js_add (Num a) (Num b) = Num (a + b)"
| "js_add PosInf NegInf = NaN"
| "js_add NegInf PosInf = NaN"
| "js_add PosInf b = PosInf"
| "js_add NegInf b = NegInf"
| "js_add (Num a) PosInf = PosInf"
| "js_add (Num a) NegInf = NegInf"

fun js_neg :: "jsnum \<Rightarrow> jsnum" where
  "js_neg (Num a) = Num (- a)"
| "js_neg PosInf = NegInf"
| "js_neg NegInf = PosInf"
| "js_neg NaN = NaN"

definition js_sub :: "jsnum \<Rightarrow> jsnum \<Rightarrow> jsnum" where
  "js_sub a b = js_add a (js_neg b)"

text \<open>The infinity with the sign of a nonzero real, NaN at zero.\<close>

definition signed_inf :: "real \<Rightarrow> jsnum" where
  "signed_inf a = (if a = 0 then NaN else if 0 < a then PosInf else NegInf)"

fun js_mul :: "jsnum \<Rightarrow> jsnum \<Rightarrow> jsnum" where
  "js_mul NaN b = NaN"
| "js_mul a NaN = NaN"
| "js_mul (Num a) (Num b) = Num (a * b)"
| "js_mul (Num a) PosInf = signed_inf a"
| "js_mul (Num a) NegInf = signed_inf (- a)"
| "js_mul PosInf (Num b) = signed_inf b"
| "js_mul NegInf (Num b) = signed_inf (- b)"
| "js_mul PosInf PosInf = PosInf"
| "js_mul PosInf NegInf = NegInf"
| "js_mul NegInf PosInf = NegInf"
| "js_mul NegInf NegInf = PosInf"

fun js_div :: "jsnum \<Rightarrow> jsnum \<Rightarrow> jsnum" where
  "js_div NaN b = NaN"
| "js_div a NaN = NaN"
| "js_div (Num a) (Num b) = (if b = 0 then signed_inf a else Num (a / b))"
| "js_div (Num a) PosInf = Num 0"
| "js_div (Num a) NegInf = Num 0"
| "js_div PosInf (Num b) = (if 0 \<le> b then PosInf else NegInf)"
| "js_div NegInf (Num b) = (if 0 \<le> b then NegInf else PosInf)"
| "js_div PosInf b = NaN"
| "js_div NegInf b = NaN"

text \<open>\<open>Math.floor\<close>.\<close>

fun Math_floor :: "jsnum \<Rightarrow> jsnum" where
  "Math_floor (Num a) = Num (of_int \<lfloor>a\<rfloor>)"
| "Math_floor a = a"

text \<open>
  \<open>Math.max(...xs)\<close> and \<open>Math.min(...xs)\<close>: NaN as soon as one argument is NaN,
  and -Infinity (resp. +Infinity) for no argument at all.
\<close>

fun js_max2 :: "jsnum \<Rightarrow> jsnum \<Rightarrow> jsnum" where
  "js_max2 NaN b = NaN"
| "js_max2 a NaN = NaN"
| "js_max2 PosInf b = PosInf"
| "js_max2 a PosInf = PosInf"
| "js_max2 NegInf b = b"
| "js_max2 a NegInf = a"
| "js_max2 (Num a) (Num b) = Num (max a b)"

fun js_min2 :: "jsnum \<Rightarrow> jsnum \<Rightarrow> jsnum" where
  "js_min2 NaN b = NaN"
| "js_min2 a NaN = NaN"
| "js_min2 NegInf b = NegInf"
| "js_min2 a NegInf = NegInf"
| "js_min2 PosInf b = b"
| "js_min2 a PosInf = a"
| "js_min2 (Num a) (Num b) = Num (min a b)"

fun Math_max :: "jsnum list \<Rightarrow> jsnum" where
  "Math_max [] = NegInf"
| "Math_max (x # xs) = js_max2 x (Math_max xs)"

fun Math_min :: "jsnum list \<Rightarrow> jsnum" where
  "Math_min [] = PosInf"
| "Math_min (x # xs) = js_min2 x (Math_min xs)"

text \<open>Truthiness of a number (0 and NaN are falsy) and \<open>a || b\<close> on numbers.\<close>

fun truthy :: "jsnum \<Rightarrow> bool" where
  "truthy (Num a) = (a \<noteq> 0)"
| "truthy NaN = False"
| "truthy a = True"

definition js_or :: "jsnum \<Rightarrow> jsnum \<Rightarrow> jsnum" where
  "js_or a b = (if truthy a then a else b)"

text \<open>The length of an array, as a number.\<close>

definition js_length :: "'a list \<Rightarrow> jsnum" where
  "js_length xs = Num (real (length xs))"


section \<open>The canvas and what is drawn on it (js/charts.js)\<close>

text \<open>
  The renderers return nothing; their contract is the sequence of calls and assignments
  they make on the canvas and on its 2D context. That sequence is the value of the model.
  \<open>FillText\<close> takes the text drawn: a label, or \<open>value.toString()\<close> of a number,
  kept as the number.
\<close>

datatype text_arg = Str string | NumStr jsnum

datatype cmd =
    SetCanvasWidth jsnum
  | SetCanvasHeight jsnum
  | Scale jsnum jsnum
  | ClearRect jsnum jsnum jsnum jsnum
  | SetImageSmoothingEnabled bool
  | SetFillStyle string
  | SetStrokeStyle string
  | SetLineWidth jsnum
  | SetGlobalAlpha jsnum
  | SetFont string
  | SetTextAlign string
  | FillRect jsnum jsnum jsnum jsnum
  | StrokeRect jsnum jsnum jsnum jsnum
  | FillText text_arg jsnum jsnum
  | BeginPath
  | MoveTo jsnum jsnum
  | LineTo jsnum jsnum
  | Stroke

text \<open>
  A canvas element as the renderers see it: whether \<open>getContext('2d')\<close> returns a context
  (it returns null otherwise), the size of its layout box (\<open>getBoundingClientRect()\<close>,
  finite numbers) and its \<open>width\<close> and \<open>height\<close> attributes (unsigned integers).
\<close>

record canvas =
  has2d :: bool
  rectWidth :: real
  rectHeight :: real
  attrWidth :: nat
  attrHeight :: nat

text \<open>
  The page around the canvas: \<open>window.devicePixelRatio\<close> and the trimmed value of a CSS
  custom property of the document element.
\<close>

record page =
  devicePixelRatio :: jsnum
  cssVar :: "string \<Rightarrow> string"

record datapoint =
  item_label :: string
  item_value :: jsnum

datatype error = TypeError

subsection \<open>drawPixelBar, drawPixelGrid, drawPixelAxes\<close>

definition drawPixelBar ::
  "jsnum \<Rightarrow> jsnum \<Rightarrow> jsnum \<Rightarrow> jsnum \<Rightarrow> string \<Rightarrow> string \<Rightarrow> cmd list" where
  "drawPixelBar x y width height fillColor borderColor =
     [ SetFillStyle fillColor,
       FillRect (Math_floor x) (Math_floor y) (Math_floor width) (Math_floor height),
       SetStrokeStyle borderColor,
       SetLineWidth (Num 2),
       StrokeRect (Math_floor x) (Math_floor y) (Math_floor width) (Math_floor height),
       SetFillStyle borderColor,
       SetGlobalAlpha (Num (3 / 10)),
       FillRect (Math_floor (js_add x (Num 2))) (Math_floor (js_add y height))
                (Math_floor (js_sub width (Num 2))) (Num 2),
       SetGlobalAlpha (Num 1) ]"

definition gridLine :: "jsnum \<Rightarrow> jsnum \<Rightarrow> jsnum \<Rightarrow> jsnum \<Rightarrow> jsnum \<Rightarrow> nat \<Rightarrow> cmd list" where
  "gridLine x y width height divisions i =
     (let yPos = js_add y (js_mul (js_div height divisions) (Num (real i)))
      in [ BeginPath,
           MoveTo x (Math_floor yPos),
           LineTo (js_add x width) (Math_floor yPos),
           Stroke ])"

definition drawPixelGrid :: "jsnum \<Rightarrow> jsnum \<Rightarrow> jsnum \<Rightarrow> jsnum \<Rightarrow> nat \<Rightarrow> cmd list" where
  "drawPixelGrid x y width height divisions =
     [ SetStrokeStyle ''rgba(122, 173, 125, 0.2)'', SetLineWidth (Num 1) ]
     @ concat (map (gridLine x y width height (Num (real divisions))) [0 ..< Suc divisions])"

definition drawPixelAxes :: "jsnum \<Rightarrow> jsnum \<Rightarrow> jsnum \<Rightarrow> jsnum \<Rightarrow> string \<Rightarrow> cmd list" where
  "drawPixelAxes x y width height color =
     [ SetStrokeStyle color,
       SetLineWidth (Num 2),
       BeginPath,
       MoveTo x y,
       LineTo x (js_add y height),
       Stroke,
       BeginPath,
       MoveTo x (js_add y height),
       LineTo (js_add x width) (js_add y height),
       Stroke ]"

subsection \<open>renderPixelBarChart\<close>

text \<open>The constants and the derived dimensions, named as in the source.\<close>

definition padding :: jsnum where
  "padding = Num 40"

definition chartWidth :: "canvas \<Rightarrow> jsnum" where
  "chartWidth c = js_sub (Num (rectWidth c)) (js_mul padding (Num 2))"

definition chartHeight :: "canvas \<Rightarrow> jsnum" where
  "chartHeight c = js_sub (Num (rectHeight c)) (js_mul padding (Num 2))"

definition maxValue :: "datapoint list \<Rightarrow> jsnum" where
  "maxValue data = Math_max (map item_value data)"

definition barWidth :: "canvas \<Rightarrow> datapoint list \<Rightarrow> jsnum" where
  "barWidth c data = js_div (chartWidth c) (js_length data)"

definition barPadding :: "canvas \<Rightarrow> datapoint list \<Rightarrow> jsnum" where
  "barPadding c data = js_mul (barWidth c data) (Num (2 / 10))"

definition actualBarWidth :: "canvas \<Rightarrow> datapoint list \<Rightarrow> jsnum" where
  "actualBarWidth c data = js_sub (barWidth c data) (barPadding c data)"

text \<open>The body of the \<open>forEach\<close>: the geometry of the bar of one item, then its drawing.\<close>

definition barHeight :: "canvas \<Rightarrow> datapoint list \<Rightarrow> datapoint \<Rightarrow> jsnum" where
  "barHeight c data item = js_mul (js_div (item_value item) (maxValue data)) (chartHeight c)"

definition barX :: "canvas \<Rightarrow> datapoint list \<Rightarrow> nat \<Rightarrow> jsnum" where
  "barX c data index =
     js_add (js_add padding (js_mul (Num (real index)) (barWidth c data)))
            (js_div (barPadding c data) (Num 2))"

definition barY :: "canvas \<Rightarrow> datapoint list \<Rightarrow> datapoint \<Rightarrow> jsnum" where
  "barY c data item = js_sub (js_add padding (chartHeight c)) (barHeight c data item)"

definition drawItem :: "page \<Rightarrow> canvas \<Rightarrow> datapoint list \<Rightarrow> nat \<times> datapoint \<Rightarrow> cmd list" where
  "drawItem pg c data p =
     (case p of (index, item) \<Rightarrow>
        let x = barX c data index;
            y = barY c data item;
            sageBase = cssVar pg ''--color-sage-base'';
            sageDark = cssVar pg ''--color-sage-dark'';
            textMuted = cssVar pg ''--color-text-muted''
        in drawPixelBar x y (actualBarWidth c data) (barHeight c data item) sageBase sageDark
           @ [ SetFillStyle textMuted,
               SetFont ''10px monospace'',
               SetTextAlign ''center'',
               FillText (Str (item_label item))
                 (js_add x (js_div (actualBarWidth c data) (Num 2)))
                 (js_add (js_sub (Num (rectHeight c)) padding) (Num 20)),
               SetFillStyle sageDark,
               SetFont ''bold 12px monospace'',
               FillText (NumStr (item_value item))
                 (js_add x (js_div (actualBarWidth c data) (Num 2)))
                 (js_sub y (Num 5)) ])"

text \<open>
  The argument is \<open>None\<close> for a null or undefined canvas: reading \<open>canvas.getContext\<close>
  then throws. A canvas without a 2D context returns before anything is touched.
\<close>

definition renderPixelBarChart ::
  "page \<Rightarrow> canvas option \<Rightarrow> datapoint list \<Rightarrow> error + cmd list" where
  "renderPixelBarChart pg canvas data =
     (case canvas of
        None \<Rightarrow> Inl TypeError
      | Some c \<Rightarrow>
          if \<not> has2d c then Inr []
          else
            let dpr = js_or (devicePixelRatio pg) (Num 1);
                width = Num (rectWidth c);
                height = Num (rectHeight c)
            in Inr
              ([ SetCanvasWidth (js_mul width dpr),
                 SetCanvasHeight (js_mul height dpr),
                 Scale dpr dpr,
                 ClearRect (Num 0) (Num 0) width height,
                 SetImageSmoothingEnabled False ]
               @ concat (map (drawItem pg c data) (enumerate 0 data))
               @ drawPixelGrid padding padding (chartWidth c) (chartHeight c) 4
               @ drawPixelAxes padding padding (chartWidth c) (chartHeight c)
                   (cssVar pg ''--color-text-muted'')))"

subsection \<open>renderSparkline\<close>

text \<open>
  The sparkline has its own local \<open>padding\<close>, \<open>maxValue\<close> and \<open>minValue\<close>; they carry
  the prefix \<open>spark_\<close> here. Width and height are the canvas attributes.
\<close>

definition spark_padding :: jsnum where
  "spark_padding = Num 4"

definition spark_maxValue :: "jsnum list \<Rightarrow> jsnum" where
  "spark_maxValue values = Math_max values"

definition spark_minValue :: "jsnum list \<Rightarrow> jsnum" where
  "spark_minValue values = Math_min values"

definition spark_range :: "jsnum list \<Rightarrow> jsnum" where
  "spark_range values = js_or (js_sub (spark_maxValue values) (spark_minValue values)) (Num 1)"

definition stepX :: "canvas \<Rightarrow> jsnum list \<Rightarrow> jsnum" where
  "stepX c values =
     js_div (js_sub (Num (real (attrWidth c))) (js_mul spark_padding (Num 2)))
            (js_sub (js_length values) (Num 1))"

definition pointX :: "canvas \<Rightarrow> jsnum list \<Rightarrow> nat \<Rightarrow> jsnum" where
  "pointX c values index = js_add spark_padding (js_mul (Num (real index)) (stepX c values))"

text \<open>The normalised position of a value between the minimum and the maximum.\<close>

definition fraction :: "jsnum list \<Rightarrow> jsnum \<Rightarrow> jsnum" where
  "fraction values v = js_div (js_sub v (spark_minValue values)) (spark_range values)"

definition pointY :: "canvas \<Rightarrow> jsnum list \<Rightarrow> jsnum \<Rightarrow> jsnum" where
  "pointY c values v =
     js_sub (js_sub (Num (real (attrHeight c))) spark_padding)
            (js_mul (fraction values v)
                    (js_sub (Num (real (attrHeight c))) (js_mul spark_padding (Num 2))))"

definition linePoint :: "canvas \<Rightarrow> jsnum list \<Rightarrow> nat \<times> jsnum \<Rightarrow> cmd" where
  "linePoint c values p =
     (case p of (index, v) \<Rightarrow>
        if index = 0 then MoveTo (pointX c values index) (pointY c values v)
        else LineTo (pointX c values index) (pointY c values v))"

definition dotPoint :: "canvas \<Rightarrow> jsnum list \<Rightarrow> nat \<times> jsnum \<Rightarrow> cmd" where
  "dotPoint c values p =
     (case p of (index, v) \<Rightarrow>
        FillRect (js_sub (pointX c values index) (Num 2))
                 (js_sub (pointY c values v) (Num 2)) (Num 4) (Num 4))"

text \<open>\<open>color\<close> is \<open>None\<close> when the caller leaves it out; the default then applies.\<close>

definition renderSparkline ::
  "canvas option \<Rightarrow> jsnum list \<Rightarrow> string option \<Rightarrow> error + cmd list" where
  "renderSparkline canvas values color_opt =
     (case canvas of
        None \<Rightarrow> Inl TypeError
      | Some c \<Rightarrow>
          if \<not> has2d c then Inr []
          else
            let color = (case color_opt of None \<Rightarrow> ''#7dad7d'' | Some col \<Rightarrow> col);
                width = Num (real (attrWidth c));
                height = Num (real (attrHeight c))
            in Inr
              ([ ClearRect (Num 0) (Num 0) width height,
                 SetImageSmoothingEnabled False,
                 SetStrokeStyle color,
                 SetLineWidth (Num 2),
                 BeginPath ]
               @ map (linePoint c values) (enumerate 0 values)
               @ [ Stroke, SetFillStyle color ]
               @ map (dotPoint c values) (enumerate 0 values)))"

text \<open>
  \<open>initChart\<close> looks the canvas up by id and returns when there is none; otherwise it
  renders the sample data. (The resize listener it installs renders the same way.)
\<close>

definition initChart :: "page \<Rightarrow> canvas option \<Rightarrow> datapoint list \<Rightarrow> error + cmd list" where
  "initChart pg canvas data =
     (case canvas of None \<Rightarrow> Inr [] | Some c \<Rightarrow> renderPixelBarChart pg (Some c) data)"


section \<open>The modal controller (js/modal.js)\<close>

text \<open>
  Elements are identified by numbers. A JavaScript reference to an element is an element,
  \<open>null\<close> or \<open>undefined\<close>; \<open>===\<close> on references is equality of these values, and
  only an element is truthy.
\<close>

datatype ref = Undefined | Null | Elem nat

fun truthy_ref :: "ref \<Rightarrow> bool" where
  "truthy_ref (Elem e) = True"
| "truthy_ref r = False"

text \<open>\<open>xs[i]\<close> on an array: \<open>undefined\<close> outside the array.\<close>

definition js_index :: "nat list \<Rightarrow> int \<Rightarrow> ref" where
  "js_index xs i = (if 0 \<le> i \<and> i < int (length xs) then Elem (xs ! nat i) else Undefined)"

text \<open>
  What the module asks of the page structure: the result of
  \<open>modal.querySelector('.modal-close')\<close>, the result of \<open>querySelectorAll\<close> with the
  list of focusable selectors, in document order, and \<open>el.offsetParent\<close>.
\<close>

record dom =
  closeBtnOf :: "nat \<Rightarrow> ref"
  selectorMatches :: "nat \<Rightarrow> nat list"
  offsetParent :: "nat \<Rightarrow> ref"

text \<open>
  The five module-level variables, and the part of the document the module reads and
  writes: \<open>document.activeElement\<close>, the \<open>hidden\<close> and \<open>aria-hidden\<close> attributes of each
  element, and \<open>document.body.style.overflow\<close>.
\<close>

record state =
  currentModal :: ref
  focusableElements :: "nat list"
  firstFocusable :: ref
  lastFocusable :: ref
  previousFocus :: ref
  activeElement :: ref
  hiddenAttr :: "nat \<Rightarrow> bool"
  ariaHidden :: "nat \<Rightarrow> string option"
  bodyOverflow :: string

text \<open>\<open>el.focus()\<close> on an element: the element becomes \<open>document.activeElement\<close>.\<close>

definition focus :: "nat \<Rightarrow> state \<Rightarrow> state" where
  "focus e s = s\<lparr>activeElement := Elem e\<rparr>"

definition getFocusableElements :: "dom \<Rightarrow> nat \<Rightarrow> nat list" where
  "getFocusableElements d container =
     filter (\<lambda>el. offsetParent d el \<noteq> Null) (selectorMatches d container)"

definition openModal :: "dom \<Rightarrow> ref \<Rightarrow> state \<Rightarrow> state" where
  "openModal d modal s =
     (case modal of
        Elem m \<Rightarrow>
          let s1 = s\<lparr>previousFocus := activeElement s\<rparr>;
              s2 = s1\<lparr>hiddenAttr := (hiddenAttr s1)(m := False), currentModal := Elem m\<rparr>;
              s3 = s2\<lparr>bodyOverflow := ''hidden''\<rparr>;
              fs = getFocusableElements d m;
              s4 = s3\<lparr>focusableElements := fs,
                      firstFocusable := js_index fs 0,
                      lastFocusable := js_index fs (int (length fs) - 1)\<rparr>;
              s5 = (case closeBtnOf d m of
                      Elem closeBtn \<Rightarrow> focus closeBtn s4
                    | _ \<Rightarrow> (case firstFocusable s4 of
                              Elem f \<Rightarrow> focus f s4
                            | _ \<Rightarrow> s4))
          in s5\<lparr>ariaHidden := (ariaHidden s5)(m \<mapsto> ''false'')\<rparr>
      | _ \<Rightarrow> s)"

definition closeModal :: "ref \<Rightarrow> state \<Rightarrow> state" where
  "closeModal modal s =
     (case modal of
        Elem m \<Rightarrow>
          let s1 = s\<lparr>hiddenAttr := (hiddenAttr s)(m := True),
                     ariaHidden := (ariaHidden s)(m \<mapsto> ''true'')\<rparr>;
              s2 = s1\<lparr>bodyOverflow := ''''\<rparr>;
              s3 = (case previousFocus s2 of
                      Elem p \<Rightarrow> (focus p s2)\<lparr>previousFocus := Null\<rparr>
                    | _ \<Rightarrow> s2)
          in s3\<lparr>currentModal := Null,
                focusableElements := [],
                firstFocusable := Null,
                lastFocusable := Null\<rparr>
      | _ \<Rightarrow> s)"

text \<open>
  A keyboard event: the key and the Shift modifier. A handler returns the new state and
  whether it called \<open>preventDefault()\<close>; a call of \<open>focus\<close> on \<open>null\<close> or \<open>undefined\<close>
  throws.
\<close>

record event =
  key :: string
  shiftKey :: bool

definition handleTabKey :: "event \<Rightarrow> state \<Rightarrow> error + state \<times> bool" where
  "handleTabKey e s =
     (if length (focusableElements s) = 0 then Inr (s, False)
      else if shiftKey e then
        (if activeElement s = firstFocusable s then
           (case lastFocusable s of
              Elem l \<Rightarrow> Inr (focus l s, True)
            | _ \<Rightarrow> Inl TypeError)
         else Inr (s, False))
      else
        (if activeElement s = lastFocusable s then
           (case firstFocusable s of
              Elem f \<Rightarrow> Inr (focus f s, True)
            | _ \<Rightarrow> Inl TypeError)
         else Inr (s, False)))"

definition handleModalKeydown :: "event \<Rightarrow> state \<Rightarrow> error + state \<times> bool" where
  "handleModalKeydown e s =
     (if \<not> truthy_ref (currentModal s) then Inr (s, False)
      else if key e = ''Escape'' \<or> key e = ''Esc'' then
        Inr (closeModal (currentModal s) s, True)
      else if key e = ''Tab'' then handleTabKey e s
      else Inr (s, False))"

text \<open>
  The boundary references as \<open>openModal\<close> computes them from the cached list. Every write
  of the list writes them too, and \<open>closeModal\<close> empties the list.
\<close>

definition boundaries_cached :: "state \<Rightarrow> bool" where
  "boundaries_cached s \<longleftrightarrow>
     firstFocusable s = js_index (focusableElements s) 0 \<and>
     lastFocusable s = js_index (focusableElements s) (int (length (focusableElements s)) - 1)"

section \<open>Concrete inputs\<close>

text \<open>A page, two canvases and some chart data, used to run the renderers.\<close>

definition example_page :: page where
  "example_page = \<lparr>devicePixelRatio = Num 2, cssVar = (\<lambda>name. ''#7dad7d'')\<rparr>"

definition example_canvas :: canvas where
  "example_canvas =
     \<lparr>has2d = True, rectWidth = 400, rectHeight = 200, attrWidth = 100, attrHeight = 40\<rparr>"

definition contextless_canvas :: canvas where
  "contextless_canvas = example_canvas\<lparr>has2d := False\<rparr>"

definition jan :: datapoint where
  "jan = \<lparr>item_label = ''Jan'', item_value = Num 0\<rparr>"

definition feb :: datapoint where
  "feb = \<lparr>item_label = ''Feb'', item_value = Num 100\<rparr>"

definition jan_feb :: "datapoint list" where
  "jan_feb = [jan, feb]"

definition all_zero :: "datapoint list" where
  "all_zero = [\<lparr>item_label = ''Jan'', item_value = Num 0\<rparr>,
               \<lparr>item_label = ''Feb'', item_value = Num 0\<rparr>]"

text \<open>
  A page with two modals, 1 and 2. Modal 1 holds a close button (element 10) and two more
  focusable elements (11 and 12); modal 2 holds one link (element 20) and no close button.
  Element 5 is a button of the page outside both. Nothing is laid out hidden.
\<close>

definition example_dom :: dom where
  "example_dom =
     \<lparr>closeBtnOf = (\<lambda>m. if m = 1 then Elem 10 else Null),
      selectorMatches = (\<lambda>m. if m = 1 then [10, 11, 12] else if m = 2 then [20] else []),
      offsetParent = (\<lambda>e. Elem 0)\<rparr>"

text \<open>The state when the module is loaded, with the focus on element 5.\<close>

definition initial_state :: state where
  "initial_state =
     \<lparr>currentModal = Null, focusableElements = [], firstFocusable = Null,
      lastFocusable = Null, previousFocus = Null, activeElement = Elem 5,
      hiddenAttr = (\<lambda>e. e = 1 \<or> e = 2), ariaHidden = (\<lambda>e. None), bodyOverflow = ''''\<rparr>"

text \<open>
  Modal 2 is opened, then modal 1 over it: both are visible and modal 1 is the active one.
\<close>

definition both_open :: state where
  "both_open = openModal example_dom (Elem 1) (openModal example_dom (Elem 2) initial_state)"





section \<open>Properties of the chart renderers\<close>

subsection \<open>Arithmetic of the plot rectangle and of the extrema\<close>

lemma chartHeight_eq: "chartHeight c = Num (rectHeight c - 80)"
  by (simp add: chartHeight_def padding_def js_sub_def)

lemma chartWidth_eq: "chartWidth c = Num (rectWidth c - 80)"
  by (simp add: chartWidth_def padding_def js_sub_def)

lemma Math_max_all_zero:
  "vs \<noteq> [] \<Longrightarrow> \<forall>v\<in>set vs. v = Num 0 \<Longrightarrow> Math_max vs = Num 0"
proof (induction vs)
  case Nil
  then show ?case by simp
next
  case (Cons x xs)
  then show ?case by (cases "xs = []") simp_all
qed

lemma maxValue_all_zero:
  assumes "data \<noteq> []" and "\<forall>d\<in>set data. item_value d = Num 0"
  shows "maxValue data = Num 0"
  unfolding maxValue_def using assms by (intro Math_max_all_zero) auto






subsection \<open>Bar heights when every value is zero\<close>

text \<open>
  Claim C1. In \<open>renderPixelBarChart\<close>, when every data point's value is 0 the maximum is
  0; the claim expects the division to be guarded, so that every bar has height exactly 0
  and none is NaN. The source divides \<open>item.value\<close> by \<open>maxValue\<close> with no guard: for
  non-empty data whose values are all 0, \<open>maxValue\<close> is 0, the height of every bar is
  \<open>(0 / 0) * chartHeight\<close> = NaN, so is its \<open>y\<close>, and \<open>fillRect\<close> is called with a NaN
  \<open>y\<close> and a NaN height. (The divisor of the sparkline, by contrast, is guarded with
  \<open>|| 1\<close>.)
\<close>

theorem renderPixelBarChart_all_zero_NaN:
  assumes "data \<noteq> []" and "list_all (\<lambda>d. item_value d = Num 0) data" and "d \<in> set data"
  shows "maxValue data = Num 0 \<and> barHeight c data d = NaN \<and> barY c data d = NaN
       \<and> drawItem pg c data (index, d) ! 1
           = FillRect (Math_floor (barX c data index)) NaN (Math_floor (actualBarWidth c data)) NaN"
proof -
  from assms(2) have z: "\<forall>d\<in>set data. item_value d = Num 0"
    by (simp add: list_all_iff)
  have m: "maxValue data = Num 0"
    by (rule maxValue_all_zero [OF assms(1) z])
  from z assms(3) have v: "item_value d = Num 0" by blast
  have h: "barHeight c data d = NaN"
    by (simp add: barHeight_def m v signed_inf_def)
  have y: "barY c data d = NaN"
    by (simp add: barY_def h js_sub_def padding_def chartHeight_eq)
  have "drawItem pg c data (index, d) ! 1
           = FillRect (Math_floor (barX c data index)) NaN (Math_floor (actualBarWidth c data)) NaN"
    by (simp add: drawItem_def drawPixelBar_def Let_def h y)
  with m h y show ?thesis by blast
qed

theorem renderPixelBarChart_all_zero_NaN_witness:
  "all_zero \<noteq> [] \<and> map item_value all_zero = [Num 0, Num 0] \<and>
   maxValue all_zero = Num 0 \<and>
   barHeight example_canvas all_zero (all_zero ! 0) = NaN \<and>
   drawItem example_page example_canvas all_zero (0, all_zero ! 0) ! 1
     = FillRect (Num 56) NaN (Num 128) NaN"
proof -
  have ne: "all_zero \<noteq> []" by (simp add: all_zero_def)
  have z: "list_all (\<lambda>d. item_value d = Num 0) all_zero" by (simp add: all_zero_def)
  have i: "all_zero ! 0 \<in> set all_zero" by (simp add: all_zero_def)
  have vs: "map item_value all_zero = [Num 0, Num 0]" by (simp add: all_zero_def)
  have len: "length all_zero = 2" by (simp add: all_zero_def)
  have x: "Math_floor (barX example_canvas all_zero 0) = Num 56"
    by (simp add: barX_def barPadding_def barWidth_def chartWidth_eq js_length_def len
        padding_def example_canvas_def)
  have w: "Math_floor (actualBarWidth example_canvas all_zero) = Num 128"
    by (simp add: actualBarWidth_def barPadding_def barWidth_def chartWidth_eq js_length_def
        len js_sub_def example_canvas_def)
  show ?thesis
    using renderPixelBarChart_all_zero_NaN [OF ne z i, of example_canvas example_page 0] ne vs x w
    by simp
qed

subsection \<open>Slots, bar widths and heights\<close>



subsection \<open>A canvas without a 2D context, and no canvas at all\<close>

text \<open>
  Claim C8, as stated: \<open>renderPixelBarChart\<close> and \<open>renderSparkline\<close> return without
  drawing and without raising whenever the drawing surface or its 2D context is
  unavailable. Both functions start by reading \<open>canvas.getContext\<close>; with no canvas
  (null) that read throws a TypeError, so the statement fails for the drawing surface.
\<close>

theorem render_null_canvas_counterexample:
  "renderPixelBarChart example_page None jan_feb = Inl TypeError
   \<and> renderSparkline None [Num 1, Num 2] None = Inl TypeError"
  by (simp add: renderPixelBarChart_def renderSparkline_def)

text \<open>
  Claim C8, amended. Given a canvas element, \<open>renderPixelBarChart\<close> and
  \<open>renderSparkline\<close> return without drawing and without raising whenever the 2D context
  of the canvas is unavailable, for every data input. A missing canvas element is handled
  one level up: \<open>initChart\<close> returns without rendering when there is none.
\<close>

theorem render_without_context_noop:
  "\<not> has2d c \<Longrightarrow>
     renderPixelBarChart pg (Some c) data = Inr [] \<and>
     renderSparkline (Some c) vs color = Inr [] \<and>
     initChart pg None data = Inr []"
  by (simp add: renderPixelBarChart_def renderSparkline_def initChart_def)

theorem render_without_context_noop_witness:
  "\<not> has2d contextless_canvas \<and>
   renderPixelBarChart example_page (Some contextless_canvas) jan_feb = Inr [] \<and>
   renderSparkline (Some contextless_canvas) [Num 1, Num 2] None = Inr []"
proof -
  have h: "\<not> has2d contextless_canvas"
    by (simp add: contextless_canvas_def example_canvas_def)
  show ?thesis
    using h render_without_context_noop [OF h, of example_page jan_feb "[Num 1, Num 2]" None]
    by simp
qed

subsection \<open>The sparkline of a constant sequence\<close>



subsection \<open>The horizontal step of the sparkline\<close>



section \<open>Properties of the modal controller\<close>

subsection \<open>What \<open>openModal\<close> caches\<close>



text \<open>
  After \<open>openModal\<close> the modal is the active one, the cached list is the list of its
  focusable elements, and the boundary references are those of that list. Moving the
  focus afterwards, as the browser does on Tab and on clicks, leaves the cache alone.
\<close>

lemma openModal_caches:
  "currentModal (openModal d (Elem m) s) = Elem m \<and>
   focusableElements (openModal d (Elem m) s) = getFocusableElements d m \<and>
   boundaries_cached (openModal d (Elem m) s)"
  by (simp add: openModal_def Let_def focus_def boundaries_cached_def split: ref.splits)


subsection \<open>The focus trap\<close>



subsection \<open>Opening\<close>



subsection \<open>Closing\<close>



text \<open>
  Claim C9. \<open>closeModal\<close> resets the focus-trap state for every element passed to it,
  whether or not that element is the active modal: afterwards the reference to the active
  modal is null, the list of focusable elements is empty, both boundary references are
  null and the scroll lock of the body is released. Closing the same element a second
  time changes nothing.
\<close>

theorem closeModal_resets_state:
  "currentModal (closeModal (Elem m) s) = Null \<and>
   focusableElements (closeModal (Elem m) s) = [] \<and>
   firstFocusable (closeModal (Elem m) s) = Null \<and>
   lastFocusable (closeModal (Elem m) s) = Null \<and>
   bodyOverflow (closeModal (Elem m) s) = '''' \<and>
   closeModal (Elem m) (closeModal (Elem m) s) = closeModal (Elem m) s"
  by (simp add: closeModal_def Let_def focus_def split: ref.splits)

theorem closeModal_resets_state_witness:
  "currentModal both_open = Elem 1 \<and> bodyOverflow both_open = ''hidden'' \<and>
   currentModal (closeModal (Elem 2) both_open) = Null \<and>
   focusableElements (closeModal (Elem 2) both_open) = [] \<and>
   bodyOverflow (closeModal (Elem 2) both_open) = '''' \<and>
   closeModal (Elem 2) (closeModal (Elem 2) both_open) = closeModal (Elem 2) both_open"
proof -
  have "currentModal both_open = Elem 1 \<and> bodyOverflow both_open = ''hidden''"
    by (simp add: both_open_def openModal_def Let_def focus_def split: ref.splits)
  then show ?thesis
    using closeModal_resets_state [of 2 both_open] by simp
qed

subsection \<open>Escape\<close>

text \<open>
  Claim C5. While a modal is active, a keydown of Escape prevents the default and closes
  the active modal, and only it: the modal gets hidden (for assistive technology too),
  no modal is active afterwards, and the attributes of every other element are as before.
  When no modal is active the keydown handler does nothing, whatever the key.
\<close>

theorem escape_closes_current_modal:
  "(currentModal s = Elem m \<longrightarrow>
      handleModalKeydown \<lparr>key = ''Escape'', shiftKey = sh\<rparr> s
        = Inr (closeModal (Elem m) s, True) \<and>
      hiddenAttr (closeModal (Elem m) s) m \<and>
      ariaHidden (closeModal (Elem m) s) m = Some ''true'' \<and>
      currentModal (closeModal (Elem m) s) = Null \<and>
      (\<forall>m'. m' \<noteq> m \<longrightarrow>
         hiddenAttr (closeModal (Elem m) s) m' = hiddenAttr s m' \<and>
         ariaHidden (closeModal (Elem m) s) m' = ariaHidden s m'))
   \<and> (\<not> truthy_ref (currentModal s) \<longrightarrow> handleModalKeydown e s = Inr (s, False))"
  by (simp add: handleModalKeydown_def closeModal_def Let_def focus_def split: ref.splits)

theorem escape_closes_current_modal_witness:
  "currentModal both_open = Elem 1 \<and>
   handleModalKeydown \<lparr>key = ''Escape'', shiftKey = False\<rparr> both_open
     = Inr (closeModal (Elem 1) both_open, True) \<and>
   \<not> hiddenAttr both_open 1 \<and> hiddenAttr (closeModal (Elem 1) both_open) 1 \<and>
   \<not> hiddenAttr both_open 2 \<and> \<not> hiddenAttr (closeModal (Elem 1) both_open) 2 \<and>
   ariaHidden (closeModal (Elem 1) both_open) 2 = Some ''false'' \<and>
   \<not> truthy_ref (currentModal initial_state) \<and>
   handleModalKeydown \<lparr>key = ''Escape'', shiftKey = False\<rparr> initial_state
     = Inr (initial_state, False)"
proof -
  have c: "currentModal both_open = Elem 1"
    by (simp add: both_open_def openModal_caches)
  have h: "\<not> hiddenAttr both_open 1 \<and> \<not> hiddenAttr both_open 2 \<and>
           ariaHidden both_open 2 = Some ''false''"
    by (simp add: both_open_def openModal_def Let_def focus_def split: ref.splits)
  have n: "\<not> truthy_ref (currentModal initial_state)"
    by (simp add: initial_state_def)
  show ?thesis
    using escape_closes_current_modal [of both_open 1 False]
      escape_closes_current_modal [of initial_state 1 False "\<lparr>key = ''Escape'', shiftKey = False\<rparr>"]
      c h n
    by simp
qed

end
